theory Spec2Isabelle
  imports Complex_Main "HOL-Library.AList"
begin

section \<open>Errors and the external world\<close>

text \<open>
  Every way the C++ leaves its defined behaviour is a value of \<open>ws_error\<close>:
  \<^item> \<open>NullDereference\<close>: \<^verbatim>\<open>connections[id]->...\<close> for an id that is not in the map.
    \<^verbatim>\<open>operator[]\<close> of the map default-inserts a null pointer for an absent key, and
    the member call through it is undefined behaviour;
  \<^item> \<open>RuntimeError\<close>: \<^verbatim>\<open>throw runtime_error(...)\<close> in \<^verbatim>\<open>WebSocketServer::wait\<close>;
  \<^item> \<open>InvalidArgument\<close>, \<open>OutOfRange\<close>: the exceptions of \<^verbatim>\<open>std::stoi\<close> and
    \<^verbatim>\<open>std::string::substr\<close>;
  \<^item> \<open>CastOutOfRange\<close>: \<^verbatim>\<open>(int)x\<close> for a float whose truncation is no \<^verbatim>\<open>int\<close>
    (undefined behaviour).
\<close>

datatype ws_error =
  NullDereference | RuntimeError string | InvalidArgument | OutOfRange | CastOutOfRange

datatype log_level = Debug | Info | Error

text \<open>
  What the code consumes from outside \<^verbatim>\<open>src/\<close>:
  \<^item> \<open>lws_write\<close>: the transport. Its return value may depend on everything written
    before (the first argument), the socket and the bytes;
  \<^item> \<open>time_now\<close>: what \<^verbatim>\<open>time(nullptr)\<close> returns;
  \<^item> \<open>log_line\<close>: the \<^verbatim>\<open>LOG_TEST_*\<close> macros of \<^verbatim>\<open>util/log.h\<close> with spdlog's level
    filter and pattern formatter: \<open>None\<close> when the record is filtered out, else the
    formatted line that reaches \<^verbatim>\<open>WebSocketSink::sink_it_\<close>;
  \<^item> \<open>show_freq\<close>: \<^verbatim>\<open>operator<<\<close> on the type of \<^verbatim>\<open>m_rxFreq\<close> and \<^verbatim>\<open>m_span\<close>
    (declared in \<^verbatim>\<open>util/ws_spectrogram.h\<close>);
  \<^item> \<open>spgramcf_psd\<close>: liquid-dsp's estimator, \<^verbatim>\<open>spgramcf_create_default(nfft)\<close>,
    \<^verbatim>\<open>spgramcf_write\<close>, \<^verbatim>\<open>spgramcf_get_psd\<close>: the array \<^verbatim>\<open>sp_psd\<close> it fills for
    a transform size and a batch, as a function of the index. A finite float is the
    rational number it denotes.
\<close>

record ('f, 'b) env =
  lws_write :: "(int \<times> string) list \<Rightarrow> int \<Rightarrow> string \<Rightarrow> int"
  time_now :: int
  log_line :: "log_level \<Rightarrow> string \<Rightarrow> string option"
  show_freq :: "'f \<Rightarrow> string"
  spgramcf_psd :: "nat \<Rightarrow> 'b \<Rightarrow> nat \<Rightarrow> rat"

section \<open>Decimal rendering: \<^verbatim>\<open>std::to_string(int)\<close>\<close>

definition digit_char :: "nat \<Rightarrow> char" where
  "digit_char d = char_of (48 + d)"

function nat_digits :: "nat \<Rightarrow> string" where
  "nat_digits n = (if n < 10 then [digit_char n] else nat_digits (n div 10) @ [digit_char (n mod 10)])"
  by pat_completeness auto
termination
  by (relation "measure (\<lambda>n. n)") auto

declare nat_digits.simps [simp del]

definition to_string :: "int \<Rightarrow> string" where
  "to_string i = (if i < 0 then CHR ''-'' # nat_digits (nat (- i)) else nat_digits (nat i))"

section \<open>Connection\<close>

record Connection =
  buffer :: "string list"
  keyValueMap :: "string \<rightharpoonup> string"
  permissions :: "string list"
  createTime :: int
  user :: string

text \<open>\<^verbatim>\<open>new Connection\<close> followed by \<^verbatim>\<open>setCreateTime\<close>: empty containers.\<close>

definition new_Connection :: "Connection" where
  "new_Connection =
     \<lparr>buffer = [], keyValueMap = Map.empty, permissions = [], createTime = 0, user = []\<rparr>"

definition setCreateTime :: "int \<Rightarrow> Connection \<Rightarrow> Connection" where
  "setCreateTime t c = c\<lparr>createTime := t\<rparr>"

definition hasPermission :: "Connection \<Rightarrow> string \<Rightarrow> bool" where
  "hasPermission c permission = (find (\<lambda>p. p = permission) (permissions c) \<noteq> None)"

definition push_to_buffer :: "string \<Rightarrow> Connection \<Rightarrow> Connection" where
  "push_to_buffer b c = c\<lparr>buffer := buffer c @ [b]\<rparr>"

definition getBuffer :: "Connection \<Rightarrow> string list" where
  "getBuffer c = buffer c"

text \<open>
  \<^verbatim>\<open>string &Connection::operator[](key) { return keyValueMap[key]; }\<close>: the map's
  \<^verbatim>\<open>operator[]\<close> inserts an empty string for an absent key and returns a reference
  to the stored value. The model returns the value read and the connection after it.
\<close>

definition index_op :: "Connection \<Rightarrow> string \<Rightarrow> string \<times> Connection" where
  "index_op c key =
     (case keyValueMap c key of
        None \<Rightarrow> ([], c\<lparr>keyValueMap := (keyValueMap c)(key \<mapsto> [])\<rparr>)
      | Some v \<Rightarrow> (v, c))"

definition index_assign :: "Connection \<Rightarrow> string \<Rightarrow> string \<Rightarrow> Connection" where
  "index_assign c key v =
     (let c' = snd (index_op c key) in c'\<lparr>keyValueMap := (keyValueMap c')(key \<mapsto> v)\<rparr>)"

section \<open>The server object\<close>

text \<open>
  \<open>connections\<close> is the map from socket id to \<^verbatim>\<open>Connection*\<close>, as an association
  list: the loops of \<^verbatim>\<open>broadcast\<close> and \<^verbatim>\<open>broadcast_log\<close> walk its entries. Every
  stored pointer comes from its own \<^verbatim>\<open>new Connection\<close>, so no two entries alias and
  an entry holds the Connection itself. The last three fields are observations of the
  run, not C++ members: \<open>wire\<close> lists the calls of \<^verbatim>\<open>lws_write\<close> (socket, bytes),
  \<open>handler_calls\<close> the invocations of the virtual handlers, \<open>writable_requests\<close>
  the calls of \<^verbatim>\<open>lws_callback_on_writable\<close>.
\<close>

datatype handler_call =
  OnConnect int | OnDisconnect int | OnMessage int string | OnError int string

record ('f, 'b) wsSpectrogram =
  connections :: "(int \<times> Connection) list"
  m_socketsOn :: bool
  stopping :: bool
  m_rxFreq :: 'f
  m_span :: 'f
  m_IQdataQueue :: "'b list"
  wire :: "(int \<times> string) list"
  handler_calls :: "handler_call list"
  writable_requests :: "int list"

subsection \<open>Logging reaches the connections\<close>

text \<open>
  \<^verbatim>\<open>WebSocketServer::broadcast_log\<close>: the loop over the entries of the map, pushing
  onto the buffer of each connection that holds the permission \<^verbatim>\<open>"logs"\<close>.
\<close>

fun broadcast_log_loop :: "(int \<times> Connection) list \<Rightarrow> string \<Rightarrow> (int \<times> Connection) list" where
  "broadcast_log_loop [] data = []"
| "broadcast_log_loop (id_and_connection # rest) data =
     (if hasPermission (snd id_and_connection) ''logs''
      then (fst id_and_connection, push_to_buffer data (snd id_and_connection))
      else id_and_connection) # broadcast_log_loop rest data"

definition broadcast_log :: "string \<Rightarrow> ('f, 'b) wsSpectrogram \<Rightarrow> ('f, 'b) wsSpectrogram" where
  "broadcast_log data s = s\<lparr>connections := broadcast_log_loop (connections s) data\<rparr>"

text \<open>
  A \<^verbatim>\<open>LOG_TEST_*\<close> call: every logger of \<^verbatim>\<open>Log::Init\<close> has the WebSocketSink
  among its sinks, and \<^verbatim>\<open>sink_it_\<close> hands the formatted line to
  \<^verbatim>\<open>webSocketServer->broadcast_log\<close>.
\<close>

definition LOG_TEST :: "('f, 'b) env \<Rightarrow> log_level \<Rightarrow> string \<Rightarrow> ('f, 'b) wsSpectrogram \<Rightarrow> ('f, 'b) wsSpectrogram" where
  "LOG_TEST E lvl msg s =
     (case log_line E lvl msg of None \<Rightarrow> s | Some formatted \<Rightarrow> broadcast_log formatted s)"

subsection \<open>The handlers of wsSpectrogram\<close>

definition onConnect :: "('f, 'b) env \<Rightarrow> int \<Rightarrow> ('f, 'b) wsSpectrogram \<Rightarrow> ('f, 'b) wsSpectrogram" where
  "onConnect E socketID s =
     (let s1 = s\<lparr>handler_calls := handler_calls s @ [OnConnect socketID]\<rparr>;
          s2 = LOG_TEST E Info (''wsSpectrogram::onConnect() socketID # '' @ to_string socketID @ '' '') s1
      in s2\<lparr>m_socketsOn := True\<rparr>)"

definition onDisconnect :: "('f, 'b) env \<Rightarrow> int \<Rightarrow> ('f, 'b) wsSpectrogram \<Rightarrow> ('f, 'b) wsSpectrogram" where
  "onDisconnect E socketID s =
     (let s1 = s\<lparr>handler_calls := handler_calls s @ [OnDisconnect socketID]\<rparr>;
          s2 = LOG_TEST E Info (''wsSpectrogram::onDisconnect() socketID # '' @ to_string socketID @ '' '') s1
      in s2\<lparr>m_socketsOn := False\<rparr>)"

definition onError :: "('f, 'b) env \<Rightarrow> int \<Rightarrow> string \<Rightarrow> ('f, 'b) wsSpectrogram \<Rightarrow> ('f, 'b) wsSpectrogram" where
  "onError E socketID message s =
     (let s1 = s\<lparr>handler_calls := handler_calls s @ [OnError socketID message]\<rparr>
      in LOG_TEST E Error
           (''wsSpectrogram::onError() socketID # '' @ to_string socketID @ '' - '' @ message @ '' '') s1)"

subsection \<open>WebSocketServer\<close>

text \<open>
  \<^verbatim>\<open>_removeConnection\<close>: \<^verbatim>\<open>connections[socketID]\<close> reads the pointer (inserting a
  null one when the id is absent), \<^verbatim>\<open>erase\<close> removes the entry, \<^verbatim>\<open>delete\<close> of a
  null pointer does nothing. No pointer is dereferenced, so an absent id is no failure.
\<close>

definition removeConnection :: "int \<Rightarrow> ('f, 'b) wsSpectrogram \<Rightarrow> ('f, 'b) wsSpectrogram" where
  "removeConnection socketID s = s\<lparr>connections := AList.delete socketID (connections s)\<rparr>"

definition onConnectWrapper :: "('f, 'b) env \<Rightarrow> int \<Rightarrow> ('f, 'b) wsSpectrogram \<Rightarrow> ('f, 'b) wsSpectrogram" where
  "onConnectWrapper E socketID s =
     (let c = setCreateTime (time_now E) new_Connection;
          s1 = s\<lparr>connections := AList.update socketID c (connections s)\<rparr>
      in onConnect E socketID s1)"

definition onDisconnectWrapper :: "('f, 'b) env \<Rightarrow> int \<Rightarrow> ('f, 'b) wsSpectrogram \<Rightarrow> ('f, 'b) wsSpectrogram" where
  "onDisconnectWrapper E socketID s = removeConnection socketID (onDisconnect E socketID s)"

definition onErrorWrapper :: "('f, 'b) env \<Rightarrow> int \<Rightarrow> string \<Rightarrow> ('f, 'b) wsSpectrogram \<Rightarrow> ('f, 'b) wsSpectrogram" where
  "onErrorWrapper E socketID message s =
     (let s1 = LOG_TEST E Debug
                 (''Error: '' @ message @ '' on socketID '' @ [CHR 0x27] @ to_string socketID @ [CHR 0x27]) s
      in removeConnection socketID (onError E socketID message s1))"

text \<open>
  \<^verbatim>\<open>connections[socketID]->push_to_buffer(data)\<close>. For an id that is not in the map
  the pointer read is null and the call through it is undefined behaviour.
\<close>

definition send :: "int \<Rightarrow> string \<Rightarrow> ('f, 'b) wsSpectrogram \<Rightarrow> ws_error + ('f, 'b) wsSpectrogram" where
  "send socketID data s =
     (case map_of (connections s) socketID of
        None \<Rightarrow> Inl NullDereference
      | Some c \<Rightarrow> Inr (s\<lparr>connections := AList.update socketID (push_to_buffer data c) (connections s)\<rparr>))"

fun broadcast_loop :: "int list \<Rightarrow> string \<Rightarrow> ('f, 'b) wsSpectrogram \<Rightarrow> ws_error + ('f, 'b) wsSpectrogram" where
  "broadcast_loop [] data s = Inr s"
| "broadcast_loop (k # ks) data s =
     (case send k data s of Inl e \<Rightarrow> Inl e | Inr s' \<Rightarrow> broadcast_loop ks data s')"

definition broadcast :: "string \<Rightarrow> ('f, 'b) wsSpectrogram \<Rightarrow> ws_error + ('f, 'b) wsSpectrogram" where
  "broadcast data s = broadcast_loop (map fst (connections s)) data s"

definition setValue :: "int \<Rightarrow> string \<Rightarrow> string \<Rightarrow> ('f, 'b) wsSpectrogram \<Rightarrow> ws_error + ('f, 'b) wsSpectrogram" where
  "setValue socketID name v s =
     (case map_of (connections s) socketID of
        None \<Rightarrow> Inl NullDereference
      | Some c \<Rightarrow> Inr (s\<lparr>connections := AList.update socketID (index_assign c name v) (connections s)\<rparr>))"

definition getValue :: "int \<Rightarrow> string \<Rightarrow> ('f, 'b) wsSpectrogram \<Rightarrow> ws_error + (string \<times> ('f, 'b) wsSpectrogram)" where
  "getValue socketID name s =
     (case map_of (connections s) socketID of
        None \<Rightarrow> Inl NullDereference
      | Some c \<Rightarrow>
          Inr (fst (index_op c name),
               s\<lparr>connections := AList.update socketID (snd (index_op c name)) (connections s)\<rparr>))"

definition getNumberOfConnections :: "('f, 'b) wsSpectrogram \<Rightarrow> nat" where
  "getNumberOfConnections s = length (connections s)"

subsection \<open>The writable event: draining a buffer\<close>

text \<open>
  \<^verbatim>\<open>strlen(message.c_str())\<close> counts the bytes before the first NUL, and those are
  the bytes handed to \<^verbatim>\<open>lws_write\<close>.
\<close>

definition c_str :: "string \<Rightarrow> string" where
  "c_str message = takeWhile (\<lambda>ch. ch \<noteq> CHR 0x00) message"

definition strlen :: "string \<Rightarrow> nat" where
  "strlen message = length (c_str message)"

text \<open>
  \<^verbatim>\<open>charsSent < msgLen\<close> compares an \<^verbatim>\<open>int\<close> with a \<^verbatim>\<open>size_t\<close>: the int is
  converted to the unsigned 64-bit type first, so a negative return value of
  \<^verbatim>\<open>lws_write\<close> is a huge count.
\<close>

definition short_write :: "int \<Rightarrow> nat \<Rightarrow> bool" where
  "short_write charsSent msgLen = (charsSent mod 2 ^ 64 < int msgLen)"

definition lws_callback_on_writable :: "int \<Rightarrow> ('f, 'b) wsSpectrogram \<Rightarrow> ('f, 'b) wsSpectrogram" where
  "lws_callback_on_writable fd s = s\<lparr>writable_requests := writable_requests s @ [fd]\<rparr>"

text \<open>
  The loop of \<^verbatim>\<open>LWS_CALLBACK_SERVER_WRITEABLE\<close>. Its list argument is the local
  variable \<^verbatim>\<open>buffer\<close>: \<^verbatim>\<open>auto buffer = ...->getBuffer()\<close> deduces \<^verbatim>\<open>list<string>\<close>
  from the \<^verbatim>\<open>const list<string>&\<close> that \<^verbatim>\<open>getBuffer\<close> returns, so \<^verbatim>\<open>buffer\<close> is a
  copy and \<^verbatim>\<open>buffer.pop_front()\<close> pops the copy. The \<^verbatim>\<open>std::cout\<close> line of the
  error branch prints to the terminal only.
\<close>

fun drain :: "('f, 'b) env \<Rightarrow> int \<Rightarrow> string list \<Rightarrow> ('f, 'b) wsSpectrogram \<Rightarrow> ('f, 'b) wsSpectrogram" where
  "drain E fd [] s = s"
| "drain E fd (message # rest) s =
     (let msgLen = strlen message;
          charsSent = lws_write E (wire s) fd (c_str message);
          s1 = s\<lparr>wire := wire s @ [(fd, c_str message)]\<rparr>
      in if short_write charsSent msgLen
         then onErrorWrapper E fd ''Error writing to socket'' s1
         else drain E fd rest s1)"

subsection \<open>wsSpectrogram::onMessage\<close>

definition npos :: nat where
  "npos = 2 ^ 64 - 1"

definition find_first_of :: "string \<Rightarrow> char \<Rightarrow> nat" where
  "find_first_of data ch =
     (if ch \<in> set data then length (takeWhile (\<lambda>c. c \<noteq> ch) data) else npos)"

definition substr :: "string \<Rightarrow> nat \<Rightarrow> nat \<Rightarrow> ws_error + string" where
  "substr data pos n = (if pos > length data then Inl OutOfRange else Inr (take n (drop pos data)))"

definition isspace :: "char \<Rightarrow> bool" where
  "isspace c = (c = CHR 0x20 \<or> c = CHR 0x09 \<or> c = CHR 0x0A \<or> c = CHR 0x0B \<or> c = CHR 0x0C \<or> c = CHR 0x0D)"

definition isdigit :: "char \<Rightarrow> bool" where
  "isdigit c = (48 \<le> (of_char c :: nat) \<and> (of_char c :: nat) \<le> 57)"

definition digits_value :: "string \<Rightarrow> int" where
  "digits_value ds = foldl (\<lambda>a c. 10 * a + (int (of_char c) - 48)) 0 ds"

text \<open>
  \<^verbatim>\<open>std::stoi(str)\<close>, base 10: \<^verbatim>\<open>strtol\<close> skips white space, takes an optional sign
  and the longest run of digits; \<^verbatim>\<open>invalid_argument\<close> when there is no digit,
  \<^verbatim>\<open>out_of_range\<close> when the value is no \<^verbatim>\<open>int\<close>.
\<close>

definition stoi :: "string \<Rightarrow> ws_error + int" where
  "stoi str =
     (let t = dropWhile isspace str;
          neg = (t \<noteq> [] \<and> hd t = CHR ''-'');
          u = (if t \<noteq> [] \<and> (hd t = CHR ''-'' \<or> hd t = CHR ''+'') then tl t else t);
          ds = takeWhile isdigit u;
          v = (if neg then - digits_value ds else digits_value ds)
      in if ds = [] then Inl InvalidArgument
         else if v < - (2 ^ 31) \<or> 2 ^ 31 - 1 < v then Inl OutOfRange
         else Inr v)"

definition onMessage :: "('f, 'b) env \<Rightarrow> int \<Rightarrow> string \<Rightarrow> ('f, 'b) wsSpectrogram \<Rightarrow> ws_error + ('f, 'b) wsSpectrogram" where
  "onMessage E socketID data s =
     (let s1 = s\<lparr>handler_calls := handler_calls s @ [OnMessage socketID data]\<rparr>;
          s2 = LOG_TEST E Info (''User click: '' @ data @ '' '') s1
      in case (if find_first_of data CHR '':'' > 0
               then substr data 0 (find_first_of data CHR '':'') else Inr [])
         of Inl e \<Rightarrow> Inl e
          | Inr cmd \<Rightarrow>
             (case (if find_first_of data CHR '':'' > 0
                    then (case substr data ((find_first_of data CHR '':'' + 1) mod 2 ^ 64) npos
                          of Inl e \<Rightarrow> Inl e | Inr t \<Rightarrow> stoi t)
                    else Inr 0)
              of Inl e \<Rightarrow> Inl e
               | Inr par \<Rightarrow>
                  Inr (LOG_TEST E Info (''cmd: '' @ cmd @ '' par: '' @ to_string par @ '' '') s2)))"

subsection \<open>The callback of the engine\<close>

datatype lws_callback =
  LWS_CALLBACK_ESTABLISHED int
| LWS_CALLBACK_SERVER_WRITEABLE int
| LWS_CALLBACK_RECEIVE int string
| LWS_CALLBACK_CLOSED int
| LWS_CALLBACK_OTHER

fun callback_main :: "('f, 'b) env \<Rightarrow> lws_callback \<Rightarrow> ('f, 'b) wsSpectrogram \<Rightarrow> ws_error + ('f, 'b) wsSpectrogram" where
  "callback_main E (LWS_CALLBACK_ESTABLISHED fd) s =
     Inr (lws_callback_on_writable fd (onConnectWrapper E fd s))"
| "callback_main E (LWS_CALLBACK_SERVER_WRITEABLE fd) s =
     (case map_of (connections s) fd of
        None \<Rightarrow> Inl NullDereference
      | Some c \<Rightarrow> Inr (lws_callback_on_writable fd (drain E fd (getBuffer c) s)))"
| "callback_main E (LWS_CALLBACK_RECEIVE fd data) s = onMessage E fd data s"
| "callback_main E (LWS_CALLBACK_CLOSED fd) s = Inr (onDisconnectWrapper E fd s)"
| "callback_main E LWS_CALLBACK_OTHER s = Inr s"

text \<open>
  \<^verbatim>\<open>WebSocketServer::wait\<close>: \<^verbatim>\<open>lws_service\<close> dispatches the pending events through
  \<^verbatim>\<open>callback_main\<close> and returns a code; which events and which code is the engine's
  choice, so both are arguments.
\<close>

fun service :: "('f, 'b) env \<Rightarrow> lws_callback list \<Rightarrow> ('f, 'b) wsSpectrogram \<Rightarrow> ws_error + ('f, 'b) wsSpectrogram" where
  "service E [] s = Inr s"
| "service E (ev # evs) s =
     (case callback_main E ev s of Inl e \<Rightarrow> Inl e | Inr s' \<Rightarrow> service E evs s')"

definition wait :: "('f, 'b) env \<Rightarrow> lws_callback list \<times> int \<Rightarrow> ('f, 'b) wsSpectrogram \<Rightarrow> ws_error + ('f, 'b) wsSpectrogram" where
  "wait E poll s =
     (case service E (fst poll) s of
        Inl e \<Rightarrow> Inl e
      | Inr s' \<Rightarrow>
          if snd poll < 0 then Inl (RuntimeError ''Error polling for socket activity.'')
          else Inr s')"

section \<open>The producer loop of wsSpectrogram\<close>

definition nfft :: nat where
  "nfft = 512"

text \<open>
  \<^verbatim>\<open>(int)sp_psd[i]\<close>: the conversion of a float to \<^verbatim>\<open>int\<close> drops the fraction
  (towards zero); it is undefined when the result is no \<^verbatim>\<open>int\<close>.
\<close>

definition float_to_int :: "rat \<Rightarrow> ws_error + int" where
  "float_to_int x =
     (let t = (if x < 0 then - \<lfloor>- x\<rfloor> else \<lfloor>x\<rfloor>)
      in if - (2 ^ 31) \<le> t \<and> t < 2 ^ 31 then Inr t else Inl CastOutOfRange)"

text \<open>
  The \<^verbatim>\<open>while (i < nfft)\<close> loop that appends the bins to \<^verbatim>\<open>m_msgSOCKET\<close>. The array
  \<^verbatim>\<open>float sp_psd[nfft]\<close> is a function of the index, read below \<open>n\<close> only.
\<close>

function psd_loop :: "nat \<Rightarrow> nat \<Rightarrow> (nat \<Rightarrow> rat) \<Rightarrow> string \<Rightarrow> ws_error + string" where
  "psd_loop i n sp_psd msg =
     (if i < n
      then (case float_to_int (sp_psd i) of
              Inl e \<Rightarrow> Inl e
            | Inr v \<Rightarrow>
                psd_loop (i + 1) n sp_psd
                  ((msg @ to_string v) @ (if i < n - 1 then '','' else [])))
      else Inr msg)"
  by pat_completeness auto
termination
  by (relation "measure (\<lambda>(i, n, sp_psd, msg). n - i)") auto

declare psd_loop.simps [simp del]

definition spectrum_message :: "('f, 'b) env \<Rightarrow> ('f, 'b) wsSpectrogram \<Rightarrow> (nat \<Rightarrow> rat) \<Rightarrow> ws_error + string" where
  \<open>spectrum_message E s sp_psd =
     (case psd_loop 0 nfft sp_psd
             (((((((''{"center":['' @ show_freq E (m_rxFreq s)) @ ''],'') @ ''"span":['')
                 @ show_freq E (m_span s)) @ ''],'') @ ''"s":[''))
      of Inl e \<Rightarrow> Inl e
       | Inr msg \<Rightarrow> Inr (msg @ '']}''))\<close>

text \<open>
  Modelled from the spec: the bound sample queue (\<^verbatim>\<open>RadioThreadIQDataQueue\<close>, declared
  outside \<^verbatim>\<open>src/\<close>) is an ordered sequence of batches; \<^verbatim>\<open>size()\<close> is its depth and
  \<^verbatim>\<open>pop\<close> takes one batch from its head. \<open>None\<close> stands for a pop on an empty queue.
\<close>

definition queue_size :: "'b list \<Rightarrow> nat" where
  "queue_size q = length q"

definition queue_pop :: "'b list \<Rightarrow> ('b \<times> 'b list) option" where
  "queue_pop q = (case q of [] \<Rightarrow> None | b # rest \<Rightarrow> Some (b, rest))"

text \<open>
  The block under \<^verbatim>\<open>if(m_socketsOn)\<close>: estimate the spectrum of the popped batch,
  build the message, \<^verbatim>\<open>broadcast\<close> it.
\<close>

definition publish_spectrum :: "('f, 'b) env \<Rightarrow> 'b \<Rightarrow> ('f, 'b) wsSpectrogram \<Rightarrow> ws_error + ('f, 'b) wsSpectrogram" where
  "publish_spectrum E m_IQdataOut s =
     (if m_socketsOn s
      then (case spectrum_message E s (spgramcf_psd E nfft m_IQdataOut) of
              Inl e \<Rightarrow> Inl e
            | Inr msg \<Rightarrow> broadcast msg s)
      else Inr s)"

text \<open>
  One pass of the body of \<^verbatim>\<open>while(!stopping)\<close> in \<^verbatim>\<open>wsSpectrogram::run\<close>, after
  \<^verbatim>\<open>WebSocketServer::wait(-1)\<close> has returned: \<open>run_body\<close>; and the whole pass:
  \<open>run_iteration\<close>. The copy of the batch into the array \<^verbatim>\<open>x\<close> changes no state.
  The pop is reached with more than five batches queued only, so its \<open>None\<close> case
  cannot occur.
\<close>

definition run_body :: "('f, 'b) env \<Rightarrow> ('f, 'b) wsSpectrogram \<Rightarrow> ws_error + ('f, 'b) wsSpectrogram" where
  "run_body E s =
     (if queue_size (m_IQdataQueue s) > 5
      then (case queue_pop (m_IQdataQueue s) of
              None \<Rightarrow> Inr s
            | Some (m_IQdataOut, rest) \<Rightarrow> publish_spectrum E m_IQdataOut (s\<lparr>m_IQdataQueue := rest\<rparr>))
      else Inr s)"

definition run_iteration :: "('f, 'b) env \<Rightarrow> lws_callback list \<times> int \<Rightarrow> ('f, 'b) wsSpectrogram \<Rightarrow> ws_error + ('f, 'b) wsSpectrogram" where
  "run_iteration E poll s =
     (case wait E poll s of Inl e \<Rightarrow> Inl e | Inr s' \<Rightarrow> run_body E s')"

text \<open>The object after its constructors: no connection, the gate flag false.\<close>

definition wsSpectrogram_init :: "'f \<Rightarrow> 'f \<Rightarrow> 'b list \<Rightarrow> ('f, 'b) wsSpectrogram" where
  "wsSpectrogram_init rxFreq spn q =
     \<lparr>connections = [], m_socketsOn = False, stopping = False, m_rxFreq = rxFreq, m_span = spn,
      m_IQdataQueue = q, wire = [], handler_calls = [], writable_requests = []\<rparr>"

section \<open>Auxiliary notions for the statements\<close>

text \<open>
  \<open>sends_ok E fd h msgs\<close>: starting from the write history \<open>h\<close>, the transport
  takes each message of \<open>msgs\<close> in full (the test of the drain loop never fires).
\<close>

fun sends_ok :: "('f, 'b) env \<Rightarrow> int \<Rightarrow> (int \<times> string) list \<Rightarrow> string list \<Rightarrow> bool" where
  "sends_ok E fd h [] = True"
| "sends_ok E fd h (m # ms) =
     (\<not> short_write (lws_write E h fd (c_str m)) (strlen m) \<and> sends_ok E fd (h @ [(fd, c_str m)]) ms)"

text \<open>
  The wording of the message format: a value truncated toward zero, and a list of
  items separated by commas, with no comma after the last.
\<close>

definition toward_zero :: "rat \<Rightarrow> int" where
  "toward_zero x = (if 0 \<le> x then \<lfloor>x\<rfloor> else \<lceil>x\<rceil>)"

fun comma_sep :: "string list \<Rightarrow> string" where
  "comma_sep [] = []"
| "comma_sep [x] = x"
| "comma_sep (x # y # zs) = x @ '','' @ comma_sep (y # zs)"

text \<open>
  Concrete worlds and objects for the examples: a transport that takes every message
  in full with logging switched off, a transport that takes nothing of the message
  \<^verbatim>\<open>"B"\<close> with every log record passed on, a connection with a given buffer and
  permissions, and a server around given connections.
\<close>

definition accepting_env :: "(int, unit) env" where
  "accepting_env =
     \<lparr>lws_write = (\<lambda>h fd bytes. int (length bytes)), time_now = 0,
      log_line = (\<lambda>lvl msg. None), show_freq = to_string, spgramcf_psd = (\<lambda>n b i. 0)\<rparr>"

definition stalling_env :: "(int, unit) env" where
  "stalling_env =
     \<lparr>lws_write = (\<lambda>h fd bytes. if bytes = ''B'' then 0 else int (length bytes)), time_now = 0,
      log_line = (\<lambda>lvl msg. Some msg), show_freq = to_string, spgramcf_psd = (\<lambda>n b i. 0)\<rparr>"

definition conn_of :: "string list \<Rightarrow> string list \<Rightarrow> Connection" where
  "conn_of msgs perms =
     \<lparr>buffer = msgs, keyValueMap = Map.empty, permissions = perms, createTime = 0, user = []\<rparr>"

definition server_of :: "(int \<times> Connection) list \<Rightarrow> (int, unit) wsSpectrogram" where
  "server_of conns =
     \<lparr>connections = conns, m_socketsOn = True, stopping = False, m_rxFreq = 0, m_span = 0,
      m_IQdataQueue = [], wire = [], handler_calls = [], writable_requests = []\<rparr>"

text \<open>The server after connection 7 was established on a fresh object with the queue \<open>q\<close>.\<close>

definition after_connect :: "unit list \<Rightarrow> (int, unit) wsSpectrogram" where
  "after_connect q =
     \<lparr>connections = [(7, conn_of [] [])], m_socketsOn = True, stopping = False, m_rxFreq = 0,
      m_span = 0, m_IQdataQueue = q, wire = [], handler_calls = [OnConnect 7],
      writable_requests = [7]\<rparr>"

text \<open>
  Three more worlds: a transport whose every write reports the error code \<open>-1\<close>, an
  estimator with a positive and a negative fractional power value, and an estimator
  whose first power value is \<open>2 ^ 31\<close>, one more than the largest \<^verbatim>\<open>int\<close>.
\<close>

definition erroring_env :: "(int, unit) env" where
  "erroring_env =
     \<lparr>lws_write = (\<lambda>h fd bytes. - 1), time_now = 0,
      log_line = (\<lambda>lvl msg. None), show_freq = to_string, spgramcf_psd = (\<lambda>n b i. 0)\<rparr>"



section \<open>Logging and the registry: basic facts\<close>

lemma hasPermission_iff: "hasPermission c p = (p \<in> set (permissions c))"
  by (auto simp: hasPermission_def find_None_iff)

lemma map_of_broadcast_log_loop:
  "map_of (broadcast_log_loop r data) k =
     map_option (\<lambda>c. if hasPermission c ''logs'' then push_to_buffer data c else c) (map_of r k)"
  by (induction r data rule: broadcast_log_loop.induct) auto

lemma keys_broadcast_log_loop: "map fst (broadcast_log_loop r data) = map fst r"
  by (induction r data rule: broadcast_log_loop.induct) auto

lemma LOG_TEST_fields [simp]:
  "m_socketsOn (LOG_TEST E l m s) = m_socketsOn s"
  "wire (LOG_TEST E l m s) = wire s"
  "handler_calls (LOG_TEST E l m s) = handler_calls s"
  "m_IQdataQueue (LOG_TEST E l m s) = m_IQdataQueue s"
  "writable_requests (LOG_TEST E l m s) = writable_requests s"
  "m_rxFreq (LOG_TEST E l m s) = m_rxFreq s"
  "m_span (LOG_TEST E l m s) = m_span s"
  "stopping (LOG_TEST E l m s) = stopping s"
  by (simp_all add: LOG_TEST_def broadcast_log_def split: option.split)

lemma LOG_TEST_keys [simp]: "map fst (connections (LOG_TEST E l m s)) = map fst (connections s)"
  by (simp add: LOG_TEST_def broadcast_log_def keys_broadcast_log_loop split: option.split)

lemma LOG_TEST_None_iff [simp]:
  "(map_of (connections (LOG_TEST E l m s)) k = None) = (map_of (connections s) k = None)"
  by (simp add: LOG_TEST_def broadcast_log_def map_of_broadcast_log_loop split: option.split)


lemma removeConnection_fields [simp]:
  "wire (removeConnection k s) = wire s"
  "handler_calls (removeConnection k s) = handler_calls s"
  "map_of (connections (removeConnection k s)) k = None"
  by (simp_all add: removeConnection_def delete_conv')

lemma onErrorWrapper_effect:
  "wire (onErrorWrapper E k msg s) = wire s"
  "handler_calls (onErrorWrapper E k msg s) = handler_calls s @ [OnError k msg]"
  "map_of (connections (onErrorWrapper E k msg s)) k = None"
  by (simp_all add: onErrorWrapper_def onError_def Let_def)

section \<open>The drain loop\<close>

lemma drain_prefix:
  "sends_ok E fd (wire s) pre \<Longrightarrow>
   drain E fd (pre @ rest) s = drain E fd rest (s\<lparr>wire := wire s @ map (\<lambda>x. (fd, c_str x)) pre\<rparr>)"
  by (induction pre arbitrary: s) (simp_all add: Let_def)

text \<open>
  Claim C1. On a writable event with every send taken in full, the messages reach the
  transport in the order they were enqueued, and the queue of the connection should be
  empty afterwards. The code sends \<^verbatim>\<open>"A"\<close> then \<^verbatim>\<open>"B"\<close> for the queue
  \<^verbatim>\<open>["A", "B"]\<close> of connection 7, but it pops a copy of the queue: the connection still
  holds \<^verbatim>\<open>["A", "B"]\<close> after the drain, so the next writable event sends both again.
\<close>

theorem writable_leaves_queue_full:
  "callback_main accepting_env (LWS_CALLBACK_SERVER_WRITEABLE 7)
       (server_of [(7, conn_of [''A'', ''B''] [])])
     = Inr ((server_of [(7, conn_of [''A'', ''B''] [])])
              \<lparr>wire := [(7, ''A''), (7, ''B'')], writable_requests := [7]\<rparr>)
   \<and> map_of (connections ((server_of [(7, conn_of [''A'', ''B''] [])])
              \<lparr>wire := [(7, ''A''), (7, ''B'')], writable_requests := [7]\<rparr>)) 7
       = Some (conn_of [''A'', ''B''] [])
   \<and> buffer (conn_of [''A'', ''B''] []) = [''A'', ''B'']"
  by (simp add: server_of_def conn_of_def accepting_env_def short_write_def strlen_def c_str_def
        getBuffer_def lws_callback_on_writable_def Let_def)

text \<open>
  What the drain does with a byte count between 0 and the length of the message: when
  the transport takes every message of a prefix \<open>pre\<close> of the queue in full and then
  returns such a count for the next message \<open>m\<close>, the handler \<^verbatim>\<open>onError\<close> is
  invoked for that connection, the connection is removed from the registry, and
  nothing after \<open>m\<close> is handed to the transport.
\<close>

lemma drain_stops_at_nonnegative_short_count:
  assumes "map_of (connections s) fd = Some c"
      and "buffer c = pre @ m # post"
      and "sends_ok E fd (wire s) pre"
      and "0 \<le> lws_write E (wire s @ map (\<lambda>x. (fd, c_str x)) pre) fd (c_str m)"
      and "lws_write E (wire s @ map (\<lambda>x. (fd, c_str x)) pre) fd (c_str m) < int (strlen m)"
  shows "\<exists>s'. callback_main E (LWS_CALLBACK_SERVER_WRITEABLE fd) s = Inr s'
           \<and> handler_calls s' = handler_calls s @ [OnError fd ''Error writing to socket'']
           \<and> map_of (connections s') fd = None
           \<and> wire s' = wire s @ map (\<lambda>x. (fd, c_str x)) (pre @ [m])"
proof -
  let ?h = "wire s @ map (\<lambda>x. (fd, c_str x)) pre"
  let ?r = "lws_write E ?h fd (c_str m)"
  have "?r mod 2 ^ 64 \<le> ?r"
    using assms(4) by (simp add: zmod_le_nonneg_dividend)
  with assms(5) have short: "short_write ?r (strlen m)"
    by (simp add: short_write_def)
  have "drain E fd (pre @ m # post) s = drain E fd (m # post) (s\<lparr>wire := ?h\<rparr>)"
    using assms(3) by (rule drain_prefix)
  also have "\<dots> = onErrorWrapper E fd ''Error writing to socket'' (s\<lparr>wire := ?h @ [(fd, c_str m)]\<rparr>)"
    using short by (simp add: Let_def)
  finally have d: "drain E fd (getBuffer c) s =
      onErrorWrapper E fd ''Error writing to socket'' (s\<lparr>wire := ?h @ [(fd, c_str m)]\<rparr>)"
    by (simp add: getBuffer_def assms(2))
  show ?thesis
    using assms(1) by (simp add: d onErrorWrapper_effect lws_callback_on_writable_def)
qed

lemma drain_stops_at_nonnegative_short_count_example:
  "\<exists>s'. callback_main stalling_env (LWS_CALLBACK_SERVER_WRITEABLE 7)
           (server_of [(7, conn_of [''A'', ''B'', ''C''] [''logs''])]) = Inr s'
       \<and> handler_calls s' = [OnError 7 ''Error writing to socket'']
       \<and> map_of (connections s') 7 = None
       \<and> wire s' = [(7, ''A''), (7, ''B'')]"
  using drain_stops_at_nonnegative_short_count [of "server_of [(7, conn_of [''A'', ''B'', ''C''] [''logs''])]" 7
      "conn_of [''A'', ''B'', ''C''] [''logs'']" "[''A'']" "''B''" "[''C'']" stalling_env]
  by (simp add: server_of_def conn_of_def stalling_env_def short_write_def strlen_def c_str_def)

text \<open>
  Claim C3. During a drain, a send that transmits fewer bytes than the message length
  should invoke \<^verbatim>\<open>onError\<close>, remove the connection and stop the loop. The test
  \<^verbatim>\<open>charsSent < msgLen\<close> compares the \<^verbatim>\<open>int\<close> result of \<^verbatim>\<open>lws_write\<close> with a
  \<^verbatim>\<open>size_t\<close>, so the error code \<open>-1\<close> (nothing transmitted) counts as a huge byte
  count: for the queue \<^verbatim>\<open>["A", "B", "C"]\<close> of connection 7 and a transport that
  returns \<open>-1\<close> for every write, all three messages are handed to the transport,
  \<^verbatim>\<open>onError\<close> is never invoked and connection 7 stays in the registry.
\<close>

theorem error_return_taken_as_full_send:
  "callback_main erroring_env (LWS_CALLBACK_SERVER_WRITEABLE 7)
       (server_of [(7, conn_of [''A'', ''B'', ''C''] [])])
     = Inr ((server_of [(7, conn_of [''A'', ''B'', ''C''] [])])
              \<lparr>wire := [(7, ''A''), (7, ''B''), (7, ''C'')], writable_requests := [7]\<rparr>)
   \<and> handler_calls ((server_of [(7, conn_of [''A'', ''B'', ''C''] [])])
              \<lparr>wire := [(7, ''A''), (7, ''B''), (7, ''C'')], writable_requests := [7]\<rparr>) = []
   \<and> map_of (connections ((server_of [(7, conn_of [''A'', ''B'', ''C''] [])])
              \<lparr>wire := [(7, ''A''), (7, ''B''), (7, ''C'')], writable_requests := [7]\<rparr>)) 7
       = Some (conn_of [''A'', ''B'', ''C''] [])
   \<and> lws_write erroring_env [] 7 ''A'' = - 1
   \<and> \<not> short_write (- 1) (strlen ''A'')"
  by (simp add: server_of_def conn_of_def erroring_env_def short_write_def strlen_def c_str_def
        getBuffer_def lws_callback_on_writable_def Let_def)

text \<open>
  The loop also measures a message with \<^verbatim>\<open>strlen\<close>: of the three bytes
  \<^verbatim>\<open>A\<close>, NUL, \<^verbatim>\<open>B\<close> only the first is handed to the transport, and the send counts
  as complete.
\<close>

lemma embedded_nul_cuts_message:
  "callback_main accepting_env (LWS_CALLBACK_SERVER_WRITEABLE 7)
       (server_of [(7, conn_of [[CHR ''A'', CHR 0x00, CHR ''B'']] [])])
     = Inr ((server_of [(7, conn_of [[CHR ''A'', CHR 0x00, CHR ''B'']] [])])
              \<lparr>wire := [(7, ''A'')], writable_requests := [7]\<rparr>)"
  by (simp add: server_of_def conn_of_def accepting_env_def short_write_def strlen_def c_str_def
        getBuffer_def lws_callback_on_writable_def Let_def)

section \<open>Broadcast by permission\<close>

text \<open>
  Claim C8. For every message \<open>m\<close> and every registry, \<^verbatim>\<open>broadcast_log\<close> (the
  broadcast to the permission \<^verbatim>\<open>"logs"\<close>) keeps the set of live connections, appends
  \<open>m\<close> to the buffer of exactly the connections whose permissions contain
  \<^verbatim>\<open>"logs"\<close>, and leaves every other connection as it was.
\<close>

theorem broadcast_log_permission:
  "map fst (connections (broadcast_log m s)) = map fst (connections s) \<and>
   map_of (connections (broadcast_log m s)) k =
     (case map_of (connections s) k of
        None \<Rightarrow> None
      | Some c \<Rightarrow> Some (if ''logs'' \<in> set (permissions c) then c\<lparr>buffer := buffer c @ [m]\<rparr> else c))"
  by (simp add: broadcast_log_def map_of_broadcast_log_loop keys_broadcast_log_loop
        hasPermission_iff push_to_buffer_def split: option.split)

section \<open>Attributes\<close>

text \<open>
  Claim C9. For a live connection and a key absent from its attribute map,
  \<^verbatim>\<open>getValue\<close> returns the empty string and stores the key with an empty value in the
  attribute map of that connection: the server after the call differs from the server
  before it, while every other connection is untouched.
\<close>

theorem getValue_absent_key:
  assumes "map_of (connections s) k = Some c" and "keyValueMap c key = None"
  shows "\<exists>s'. getValue k key s = Inr ([], s')
            \<and> map_of (connections s') k = Some (c\<lparr>keyValueMap := (keyValueMap c)(key \<mapsto> [])\<rparr>)
            \<and> (\<forall>k'. k' \<noteq> k \<longrightarrow> map_of (connections s') k' = map_of (connections s) k')
            \<and> s' \<noteq> s"
proof -
  let ?c' = "c\<lparr>keyValueMap := (keyValueMap c)(key \<mapsto> [])\<rparr>"
  let ?s' = "s\<lparr>connections := AList.update k ?c' (connections s)\<rparr>"
  have g: "getValue k key s = Inr ([], ?s')"
    using assms by (simp add: getValue_def index_op_def)
  have at: "map_of (connections ?s') k = Some ?c'"
    by (simp add: update_conv')
  have "keyValueMap ?c' key \<noteq> keyValueMap c key"
    using assms(2) by simp
  then have "?c' \<noteq> c" by metis
  have "?s' \<noteq> s"
  proof
    assume "?s' = s"
    then have "map_of (connections ?s') k = map_of (connections s) k" by simp
    with at assms(1) \<open>?c' \<noteq> c\<close> show False by simp
  qed
  with g at show ?thesis by (auto simp: update_conv')
qed

theorem getValue_absent_key_witness:
  "\<exists>s'. getValue 7 ''user'' (server_of [(7, conn_of [] []), (8, conn_of [''A''] [])]) = Inr ([], s')
       \<and> map_of (connections s') 7 = Some ((conn_of [] [])\<lparr>keyValueMap := [''user'' \<mapsto> []]\<rparr>)
       \<and> map_of (connections s') 8 = Some (conn_of [''A''] [])
       \<and> s' \<noteq> server_of [(7, conn_of [] []), (8, conn_of [''A''] [])]"
proof -
  let ?s = "server_of [(7, conn_of [] []), (8, conn_of [''A''] [])]"
  have "\<exists>s'. getValue 7 ''user'' ?s = Inr ([], s')
            \<and> map_of (connections s') 7 = Some ((conn_of [] [])\<lparr>keyValueMap := [''user'' \<mapsto> []]\<rparr>)
            \<and> (\<forall>k'. k' \<noteq> 7 \<longrightarrow> map_of (connections s') k' = map_of (connections ?s) k')
            \<and> s' \<noteq> ?s"
    using getValue_absent_key [of ?s 7 "conn_of [] []" "''user''"]
    by (simp add: server_of_def conn_of_def)
  then obtain s' where s': "getValue 7 ''user'' ?s = Inr ([], s')"
      "map_of (connections s') 7 = Some ((conn_of [] [])\<lparr>keyValueMap := [''user'' \<mapsto> []]\<rparr>)"
      "\<forall>k'. k' \<noteq> 7 \<longrightarrow> map_of (connections s') k' = map_of (connections ?s) k'"
      "s' \<noteq> ?s"
    by blast
  from s'(3) have "map_of (connections s') 8 = Some (conn_of [''A''] [])"
    by (simp add: server_of_def)
  with s'(1,2,4) show ?thesis by blast
qed

section \<open>Unknown and duplicate ids\<close>

text \<open>
  The scenario of the specification: connection 7 closes, then \<^verbatim>\<open>send(7, "C")\<close>. The
  id is gone from the registry, and the send is no no-op: it goes through the null
  pointer that \<^verbatim>\<open>connections[7]\<close> yields.
\<close>

theorem send_after_close_fails:
  "map_of (connections (onDisconnectWrapper accepting_env 7 (server_of [(7, conn_of [] [])]))) 7 = None
   \<and> send 7 ''C'' (onDisconnectWrapper accepting_env 7 (server_of [(7, conn_of [] [])])) = Inl NullDereference
   \<and> send 7 ''C'' (onDisconnectWrapper accepting_env 7 (server_of [(7, conn_of [] [])]))
       \<noteq> Inr (onDisconnectWrapper accepting_env 7 (server_of [(7, conn_of [] [])]))"
  by (simp add: send_def onDisconnectWrapper_def)

lemma send_effect:
  assumes "map_of (connections s) k = Some c"
  shows "\<exists>s'. send k data s = Inr s'
           \<and> map_of (connections s') = (map_of (connections s))(k \<mapsto> c\<lparr>buffer := buffer c @ [data]\<rparr>)
           \<and> map fst (connections s') = map fst (connections s)
           \<and> m_IQdataQueue s' = m_IQdataQueue s"
proof -
  from assms have "k \<in> fst ` set (connections s)"
    by (metis map_of_eq_None_iff option.distinct(1))
  then have "map fst (AList.update k (push_to_buffer data c) (connections s)) = map fst (connections s)"
    by (simp add: update_keys)
  with assms show ?thesis
    by (simp add: send_def update_conv' push_to_buffer_def)
qed

text \<open>
  Claim C2, amended. \<^verbatim>\<open>send(id, data)\<close> enqueues only for an id that is in the
  registry. For every id that is not, it is not a no-op: \<^verbatim>\<open>connections[id]\<close> yields a
  null pointer and the call of \<^verbatim>\<open>push_to_buffer\<close> through it is undefined behaviour
  (the failure \<open>NullDereference\<close>). For an id that is in the registry it appends
  \<open>data\<close> to the buffer of that connection and leaves every other connection as it
  was.
\<close>

theorem send_unknown_id:
  "(map_of (connections s) socketID = None \<longrightarrow> send socketID data s = Inl NullDereference)
   \<and> (\<forall>c. map_of (connections s) socketID = Some c \<longrightarrow>
         (\<exists>s'. send socketID data s = Inr s'
             \<and> map_of (connections s') socketID = Some (c\<lparr>buffer := buffer c @ [data]\<rparr>)
             \<and> (\<forall>k. k \<noteq> socketID \<longrightarrow> map_of (connections s') k = map_of (connections s) k)))"
proof (intro conjI allI impI)
  assume "map_of (connections s) socketID = None"
  then show "send socketID data s = Inl NullDereference" by (simp add: send_def)
next
  fix c assume "map_of (connections s) socketID = Some c"
  from send_effect [OF this, of data] obtain s' where
    "send socketID data s = Inr s'"
    "map_of (connections s') = (map_of (connections s))(socketID \<mapsto> c\<lparr>buffer := buffer c @ [data]\<rparr>)"
    by blast
  then show "\<exists>s'. send socketID data s = Inr s'
             \<and> map_of (connections s') socketID = Some (c\<lparr>buffer := buffer c @ [data]\<rparr>)
             \<and> (\<forall>k. k \<noteq> socketID \<longrightarrow> map_of (connections s') k = map_of (connections s) k)"
    by simp
qed

theorem send_unknown_id_witness:
  "send 7 ''C'' (server_of [(8, conn_of [''A''] [])]) = Inl NullDereference
   \<and> (\<exists>s'. send 8 ''C'' (server_of [(8, conn_of [''A''] []), (9, conn_of [] [])]) = Inr s'
          \<and> map_of (connections s') 8 = Some (conn_of [''A'', ''C''] [])
          \<and> map_of (connections s') 9 = Some (conn_of [] []))"
proof -
  let ?s = "server_of [(8, conn_of [''A''] []), (9, conn_of [] [])]"
  have absent: "send 7 ''C'' (server_of [(8, conn_of [''A''] [])]) = Inl NullDereference"
    using send_unknown_id [of "server_of [(8, conn_of [''A''] [])]" 7 "''C''"]
    by (simp add: server_of_def)
  have "map_of (connections ?s) 8 = Some (conn_of [''A''] [])"
    by (simp add: server_of_def)
  with send_unknown_id [of ?s 8 "''C''"] obtain s' where
    s': "send 8 ''C'' ?s = Inr s'"
        "map_of (connections s') 8 = Some ((conn_of [''A''] [])\<lparr>buffer := buffer (conn_of [''A''] []) @ [''C'']\<rparr>)"
        "\<forall>k. k \<noteq> 8 \<longrightarrow> map_of (connections s') k = map_of (connections ?s) k"
    by blast
  from s'(2) have a: "map_of (connections s') 8 = Some (conn_of [''A'', ''C''] [])"
    by (simp add: conn_of_def)
  from s'(3) have b: "map_of (connections s') 9 = Some (conn_of [] [])"
    by (simp add: server_of_def)
  from absent s'(1) a b show ?thesis by blast
qed






section \<open>The gate flag of the producer\<close>

text \<open>
  Claim C5. After every sequence of connect and disconnect events the gate flag
  \<^verbatim>\<open>m_socketsOn\<close> should be true exactly when a connection is attached.
  \<^verbatim>\<open>onDisconnect\<close> stores false whatever else is attached: after connections 1 and 2
  are established and connection 1 closes, connection 2 is still in the registry and
  the flag is false, so the pass of the producer loop that follows pops a batch (six
  are queued) and broadcasts nothing to connection 2.
\<close>

theorem gate_flag_false_with_client_attached:
  "run_iteration accepting_env
      ([LWS_CALLBACK_ESTABLISHED 1, LWS_CALLBACK_ESTABLISHED 2, LWS_CALLBACK_CLOSED 1], 0)
      (wsSpectrogram_init 0 0 [(), (), (), (), (), ()])
     = Inr \<lparr>connections = [(2, conn_of [] [])], m_socketsOn = False, stopping = False,
            m_rxFreq = 0, m_span = 0, m_IQdataQueue = [(), (), (), (), ()], wire = [],
            handler_calls = [OnConnect 1, OnConnect 2, OnDisconnect 1],
            writable_requests = [1, 2]\<rparr>"
  by (simp add: run_iteration_def wait_def run_body_def queue_size_def queue_pop_def
        publish_spectrum_def
        wsSpectrogram_init_def accepting_env_def conn_of_def onConnectWrapper_def onConnect_def
        onDisconnectWrapper_def onDisconnect_def removeConnection_def LOG_TEST_def
        lws_callback_on_writable_def setCreateTime_def new_Connection_def Let_def)

section \<open>The spectrum message\<close>

lemma float_to_int_toward_zero:
  assumes "- (2 ^ 31) - 1 < x" and "x < 2 ^ 31"
  shows "float_to_int x = Inr (toward_zero x)"
proof (cases "x < 0")
  case True
  have eq: "- \<lfloor>- x\<rfloor> = \<lceil>x\<rceil>" by (simp add: ceiling_def)
  have "- x < 2 ^ 31 + 1" using assms(1) by simp
  then have "\<lfloor>- x\<rfloor> < 2 ^ 31 + 1" by (simp add: floor_less_iff)
  then have lo: "- (2 ^ 31) \<le> \<lceil>x\<rceil>" using eq by linarith
  have "\<lceil>x\<rceil> \<le> 0" using True by (simp add: ceiling_le_iff)
  moreover have "(0::int) < 2 ^ 31" by simp
  ultimately have hi: "\<lceil>x\<rceil> < 2 ^ 31" by linarith
  show ?thesis using True lo hi by (simp add: float_to_int_def toward_zero_def eq Let_def)
next
  case False
  then have "0 \<le> \<lfloor>x\<rfloor>" by simp
  moreover have "(0::int) < 2 ^ 31" by simp
  ultimately have lo: "- (2 ^ 31) \<le> \<lfloor>x\<rfloor>" by linarith
  have hi: "\<lfloor>x\<rfloor> < 2 ^ 31" using assms(2) by (simp add: floor_less_iff)
  show ?thesis using False lo hi by (simp add: float_to_int_def toward_zero_def Let_def)
qed

lemma comma_sep_Cons: "comma_sep (x # xs) = (if xs = [] then x else x @ '','' @ comma_sep xs)"
  by (cases xs) simp_all

lemma psd_loop_comma_sep:
  assumes "\<forall>k. i \<le> k \<and> k < n \<longrightarrow> float_to_int (sp_psd k) = Inr (g k)"
  shows "psd_loop i n sp_psd msg = Inr (msg @ comma_sep (map (\<lambda>k. to_string (g k)) [i..<n]))"
  using assms
proof (induction i n sp_psd msg rule: psd_loop.induct)
  case (1 i n sp_psd msg)
  show ?case
  proof (cases "i < n")
    case False
    then show ?thesis by (simp add: psd_loop.simps)
  next
    case True
    have here: "float_to_int (sp_psd i) = Inr (g i)" using True "1.prems" by simp
    have rest: "\<forall>k. i + 1 \<le> k \<and> k < n \<longrightarrow> float_to_int (sp_psd k) = Inr (g k)"
      using "1.prems" by simp
    have ih: "psd_loop (i + 1) n sp_psd ((msg @ to_string (g i)) @ (if i < n - 1 then '','' else []))
        = Inr (((msg @ to_string (g i)) @ (if i < n - 1 then '','' else []))
               @ comma_sep (map (\<lambda>k. to_string (g k)) [i + 1..<n]))"
      using "1.IH" [OF True here rest] .
    have step: "psd_loop i n sp_psd msg
        = psd_loop (i + 1) n sp_psd ((msg @ to_string (g i)) @ (if i < n - 1 then '','' else []))"
      using True here by (subst psd_loop.simps) simp
    have upt: "[i..<n] = i # [i + 1..<n]"
      using True by (simp add: upt_conv_Cons)
    show ?thesis
    proof (cases "i < n - 1")
      case True
      then have "Suc i < n" by arith
      then have ne: "map (\<lambda>k. to_string (g k)) [i + 1..<n] \<noteq> []" by simp
      show ?thesis
        unfolding step ih upt using True ne by (simp add: comma_sep_Cons)
    next
      case False
      with \<open>i < n\<close> have "n \<le> Suc i" by arith
      then have e: "[i + 1..<n] = []" by simp
      show ?thesis
        unfolding step ih upt e using False by simp
    qed
  qed
qed






lemma spectrum_message_comma_sep:
  assumes "\<forall>i<nfft. - (2 ^ 31) - 1 < sp_psd i \<and> sp_psd i < 2 ^ 31"
  shows \<open>spectrum_message E s sp_psd =
           Inr (''{"center":['' @ show_freq E (m_rxFreq s) @ ''],"span":['' @ show_freq E (m_span s)
                @ ''],"s":['' @ comma_sep (map (\<lambda>k. to_string (toward_zero (sp_psd k))) [0..<nfft]) @ '']}'')\<close>
proof -
  have "\<forall>k. 0 \<le> k \<and> k < nfft \<longrightarrow> float_to_int (sp_psd k) = Inr (toward_zero (sp_psd k))"
    using assms by (simp add: float_to_int_toward_zero)
  then have "psd_loop 0 nfft sp_psd msg
      = Inr (msg @ comma_sep (map (\<lambda>k. to_string (toward_zero (sp_psd k))) [0..<nfft]))" for msg
    by (rule psd_loop_comma_sep)
  then show ?thesis
    by (simp add: spectrum_message_def)
qed

section \<open>Backpressure of the producer loop\<close>

lemma drain_queue [simp]: "m_IQdataQueue (drain E fd msgs s) = m_IQdataQueue s"
  by (induction msgs arbitrary: s)
     (simp_all add: Let_def onErrorWrapper_def onError_def removeConnection_def)

lemma callback_main_queue:
  "callback_main E ev s = Inr s' \<Longrightarrow> m_IQdataQueue s' = m_IQdataQueue s"
  by (cases ev)
     (auto simp: lws_callback_on_writable_def onConnectWrapper_def onConnect_def
        onDisconnectWrapper_def onDisconnect_def removeConnection_def onMessage_def Let_def
        split: option.splits sum.splits if_splits)

lemma service_queue:
  "service E evs s = Inr s' \<Longrightarrow> m_IQdataQueue s' = m_IQdataQueue s"
proof (induction evs arbitrary: s)
  case Nil
  then show ?case by simp
next
  case (Cons ev evs)
  then show ?case
    by (auto split: sum.splits dest: callback_main_queue)
qed

lemma wait_queue:
  "wait E poll s = Inr s' \<Longrightarrow> m_IQdataQueue s' = m_IQdataQueue s"
  by (auto simp: wait_def split: sum.splits if_splits dest: service_queue)

lemma send_present:
  "k \<in> fst ` set (connections s) \<Longrightarrow>
   \<exists>s'. send k data s = Inr s' \<and> m_IQdataQueue s' = m_IQdataQueue s
        \<and> fst ` set (connections s') = fst ` set (connections s)"
  by (auto simp: send_def map_of_eq_None_iff dom_update split: option.splits)

lemma broadcast_loop_total:
  "set ks \<subseteq> fst ` set (connections s) \<Longrightarrow>
   \<exists>s'. broadcast_loop ks data s = Inr s' \<and> m_IQdataQueue s' = m_IQdataQueue s"
proof (induction ks arbitrary: s)
  case Nil
  then show ?case by simp
next
  case (Cons k ks)
  then have "k \<in> fst ` set (connections s)" by simp
  from send_present [OF this, of data] obtain s1 where
    s1: "send k data s = Inr s1" "m_IQdataQueue s1 = m_IQdataQueue s"
        "fst ` set (connections s1) = fst ` set (connections s)" by blast
  from Cons.prems s1(3) have "set ks \<subseteq> fst ` set (connections s1)" by simp
  from Cons.IH [OF this] s1 show ?case by auto
qed

lemma broadcast_total:
  "\<exists>s'. broadcast data s = Inr s' \<and> m_IQdataQueue s' = m_IQdataQueue s"
  unfolding broadcast_def by (rule broadcast_loop_total) simp

lemma broadcast_queue:
  "broadcast data s = Inr s' \<Longrightarrow> m_IQdataQueue s' = m_IQdataQueue s"
  using broadcast_total [of data s] by auto

lemma publish_spectrum_queue:
  "publish_spectrum E b s = Inr s' \<Longrightarrow> m_IQdataQueue s' = m_IQdataQueue s"
  by (auto simp: publish_spectrum_def split: if_splits sum.splits dest: broadcast_queue)

text \<open>
  Claim C7. In a pass of the producer loop whose poll returns, the poll leaves the
  sample queue alone. With at most five batches queued the pass ends in the state the
  poll left: nothing is popped and nothing is broadcast. With more than five queued
  the pass pops the head batch and hands it to the publishing block, so every
  completed pass has exactly one batch less; it completes when the gate flag is off
  and when the power values of the batch (for the transform size \<open>nfft = 512\<close>)
  convert to \<^verbatim>\<open>int\<close>.
\<close>

theorem run_iteration_backpressure:
  assumes "wait E poll s = Inr s1"
  shows "m_IQdataQueue s1 = m_IQdataQueue s
       \<and> (queue_size (m_IQdataQueue s) \<le> 5 \<longrightarrow> run_iteration E poll s = Inr s1)
       \<and> (queue_size (m_IQdataQueue s) > 5 \<longrightarrow>
            run_iteration E poll s
              = publish_spectrum E (hd (m_IQdataQueue s)) (s1\<lparr>m_IQdataQueue := tl (m_IQdataQueue s)\<rparr>)
            \<and> (\<forall>s2. run_iteration E poll s = Inr s2 \<longrightarrow>
                  m_IQdataQueue s2 = tl (m_IQdataQueue s)
                  \<and> queue_size (m_IQdataQueue s2) + 1 = queue_size (m_IQdataQueue s))
            \<and> (\<not> m_socketsOn s1 \<longrightarrow> run_iteration E poll s = Inr (s1\<lparr>m_IQdataQueue := tl (m_IQdataQueue s)\<rparr>))
            \<and> ((\<forall>i<nfft. - (2 ^ 31) - 1 < spgramcf_psd E nfft (hd (m_IQdataQueue s)) i
                          \<and> spgramcf_psd E nfft (hd (m_IQdataQueue s)) i < 2 ^ 31) \<longrightarrow>
                 (\<exists>s2. run_iteration E poll s = Inr s2)))"
proof -
  have q: "m_IQdataQueue s1 = m_IQdataQueue s" using assms by (rule wait_queue)
  have le: "run_iteration E poll s = Inr s1" if "queue_size (m_IQdataQueue s) \<le> 5"
    using that assms q by (simp add: run_iteration_def run_body_def)
  {
    assume gt: "queue_size (m_IQdataQueue s) > 5"
    then obtain b rest where br: "m_IQdataQueue s = b # rest"
      by (cases "m_IQdataQueue s") (auto simp: queue_size_def)
    let ?s1' = "s1\<lparr>m_IQdataQueue := tl (m_IQdataQueue s)\<rparr>"
    have run: "run_iteration E poll s = publish_spectrum E (hd (m_IQdataQueue s)) ?s1'"
      using gt assms q br by (simp add: run_iteration_def run_body_def queue_pop_def)
    have popped: "m_IQdataQueue s2 = tl (m_IQdataQueue s)
        \<and> queue_size (m_IQdataQueue s2) + 1 = queue_size (m_IQdataQueue s)"
      if "run_iteration E poll s = Inr s2" for s2
      using that run publish_spectrum_queue [of E "hd (m_IQdataQueue s)" ?s1' s2] br
      by (simp add: queue_size_def)
    have off: "run_iteration E poll s = Inr ?s1'" if "\<not> m_socketsOn s1"
      using that run by (simp add: publish_spectrum_def)
    have total: "\<exists>s2. run_iteration E poll s = Inr s2"
      if r: "\<forall>i<nfft. - (2 ^ 31) - 1 < spgramcf_psd E nfft (hd (m_IQdataQueue s)) i
                 \<and> spgramcf_psd E nfft (hd (m_IQdataQueue s)) i < 2 ^ 31"
    proof -
      from spectrum_message_comma_sep [OF r, of E ?s1'] obtain msg where
        "spectrum_message E ?s1' (spgramcf_psd E nfft (hd (m_IQdataQueue s))) = Inr msg"
        by blast
      then show ?thesis
        using run broadcast_total [of msg ?s1'] by (auto simp: publish_spectrum_def)
    qed
    note run popped off total
  }
  with q le show ?thesis by blast
qed

lemma wait_connect:
  "wait accepting_env ([LWS_CALLBACK_ESTABLISHED 7], 0) (wsSpectrogram_init 0 0 q) = Inr (after_connect q)"
  by (simp add: wait_def wsSpectrogram_init_def accepting_env_def conn_of_def after_connect_def
        onConnectWrapper_def onConnect_def LOG_TEST_def lws_callback_on_writable_def
        setCreateTime_def new_Connection_def Let_def)

theorem run_iteration_backpressure_witness:
  "run_iteration accepting_env ([LWS_CALLBACK_ESTABLISHED 7], 0) (wsSpectrogram_init 0 0 [(), (), (), (), ()])
     = Inr (after_connect [(), (), (), (), ()])
   \<and> (\<exists>s2. run_iteration accepting_env ([LWS_CALLBACK_ESTABLISHED 7], 0)
               (wsSpectrogram_init 0 0 [(), (), (), (), (), ()]) = Inr s2
          \<and> m_IQdataQueue s2 = [(), (), (), (), ()])"
proof -
  have five: "run_iteration accepting_env ([LWS_CALLBACK_ESTABLISHED 7], 0)
      (wsSpectrogram_init 0 0 [(), (), (), (), ()]) = Inr (after_connect [(), (), (), (), ()])"
    using run_iteration_backpressure [OF wait_connect [of "[(), (), (), (), ()]"]]
    by (simp add: queue_size_def wsSpectrogram_init_def)
  let ?s6 = "wsSpectrogram_init 0 0 [(), (), (), (), (), ()] :: (int, unit) wsSpectrogram"
  note T = run_iteration_backpressure [OF wait_connect [of "[(), (), (), (), (), ()]"]]
  have gt: "queue_size (m_IQdataQueue ?s6) > 5"
    by (simp add: queue_size_def wsSpectrogram_init_def)
  have rng: "\<forall>i<nfft. - (2 ^ 31) - 1 < spgramcf_psd accepting_env nfft (hd (m_IQdataQueue ?s6)) i
                 \<and> spgramcf_psd accepting_env nfft (hd (m_IQdataQueue ?s6)) i < 2 ^ 31"
    by (simp add: accepting_env_def)
  from T gt rng obtain s2 where
    s2: "run_iteration accepting_env ([LWS_CALLBACK_ESTABLISHED 7], 0) ?s6 = Inr s2"
    by blast
  with T gt have "m_IQdataQueue s2 = tl (m_IQdataQueue ?s6)" by blast
  then have "m_IQdataQueue s2 = [(), (), (), (), ()]"
    by (simp add: wsSpectrogram_init_def)
  with s2 have six: "\<exists>s2. run_iteration accepting_env ([LWS_CALLBACK_ESTABLISHED 7], 0) ?s6 = Inr s2
          \<and> m_IQdataQueue s2 = [(), (), (), (), ()]"
    by blast
  from five six show ?thesis by blast
qed

section \<open>The spectrum message that is broadcast\<close>












section \<open>Payloads without a colon\<close>

lemma find_first_of_absent: "ch \<notin> set data \<Longrightarrow> find_first_of data ch = npos"
  by (simp add: find_first_of_def)

lemma npos_pos: "0 < npos"
  by (simp add: npos_def)

text \<open>
  Claim C10. \<^verbatim>\<open>onMessage\<close> is not total. For every payload without \<^verbatim>\<open>':'\<close>
  (of a length a \<^verbatim>\<open>std::string\<close> can have) \<^verbatim>\<open>find_first_of\<close> returns \<^verbatim>\<open>npos\<close>,
  which is greater than 0, so the parse branch runs and \<^verbatim>\<open>stoi\<close> is applied to the
  whole payload: the call fails exactly when \<^verbatim>\<open>stoi\<close> of the payload fails. The
  payload \<^verbatim>\<open>"hello"\<close> is such a one: \<^verbatim>\<open>stoi\<close> throws \<^verbatim>\<open>invalid_argument\<close>.
\<close>

theorem onMessage_without_colon:
  "(CHR '':'' \<notin> set data \<and> length data < 2 ^ 64 \<longrightarrow>
       find_first_of data CHR '':'' = npos \<and> 0 < npos
     \<and> onMessage E k data s =
         (case stoi data of
            Inl e \<Rightarrow> Inl e
          | Inr par \<Rightarrow>
              Inr (LOG_TEST E Info (''cmd: '' @ data @ '' par: '' @ to_string par @ '' '')
                    (LOG_TEST E Info (''User click: '' @ data @ '' '')
                      (s\<lparr>handler_calls := handler_calls s @ [OnMessage k data]\<rparr>)))))
   \<and> CHR '':'' \<notin> set ''hello'' \<and> stoi ''hello'' = Inl InvalidArgument
   \<and> onMessage E k ''hello'' s = Inl InvalidArgument"
proof -
  have gen: "onMessage E k data s =
         (case stoi data of
            Inl e \<Rightarrow> Inl e
          | Inr par \<Rightarrow>
              Inr (LOG_TEST E Info (''cmd: '' @ data @ '' par: '' @ to_string par @ '' '')
                    (LOG_TEST E Info (''User click: '' @ data @ '' '')
                      (s\<lparr>handler_calls := handler_calls s @ [OnMessage k data]\<rparr>))))"
    if "CHR '':'' \<notin> set data" "length data < 2 ^ 64" for data
  proof -
    have p: "find_first_of data CHR '':'' = npos" using that(1) by (rule find_first_of_absent)
    have "length data \<le> npos" using that(2) by (simp add: npos_def)
    then have sub: "substr data 0 npos = Inr data" by (simp add: substr_def)
    have wrap: "(npos + 1) mod 2 ^ 64 = 0" by (simp add: npos_def)
    have sub1: "substr data ((find_first_of data CHR '':'' + 1) mod 2 ^ 64) npos = Inr data"
      unfolding p wrap by (rule sub)
    show ?thesis
      unfolding onMessage_def Let_def sub1
      by (simp add: p npos_pos sub split: sum.split)
  qed
  have hello: "stoi ''hello'' = Inl InvalidArgument"
    by (simp add: stoi_def isspace_def isdigit_def Let_def)
  have "onMessage E k ''hello'' s = Inl InvalidArgument"
    using gen [of "''hello''"] hello by simp
  with gen hello show ?thesis
    by (simp add: find_first_of_absent npos_pos)
qed

theorem onMessage_without_colon_witness:
  "find_first_of ''42 Hz'' CHR '':'' = npos
   \<and> onMessage accepting_env 7 ''42 Hz'' (server_of [])
        = Inr ((server_of [])\<lparr>handler_calls := [OnMessage 7 ''42 Hz'']\<rparr>)
   \<and> onMessage accepting_env 7 ''hello'' (server_of []) = Inl InvalidArgument"
proof -
  have st: "stoi ''42 Hz'' = Inr 42"
    by (simp add: stoi_def isspace_def isdigit_def digits_value_def Let_def)
  show ?thesis
    using onMessage_without_colon [of "''42 Hz''" accepting_env 7 "server_of []"]
    by (simp add: st) (simp add: accepting_env_def server_of_def LOG_TEST_def)
qed

end
